theory Spec2Isabelle
  imports Main "HOL-Library.Sublist" "HOL-Library.AList"
begin

section \<open>Strings and objects of the host language\<close>

text \<open>
  A string is a list of 8-bit characters, read as the code units U+0000 to U+00FF, so the
  development is exact for Latin-1 text.
\<close>

definition isWhiteSpace :: "char \<Rightarrow> bool" where
  \<comment> \<open>the white space and line terminator code units below U+0100 that \<^verbatim>\<open>trim\<close> strips\<close>
  "isWhiteSpace c \<longleftrightarrow>
     c \<in> set [CHR 0x09, CHR 0x0A, CHR 0x0B, CHR 0x0C, CHR 0x0D, CHR 0x20, CHR 0xA0]"

definition trim :: "string \<Rightarrow> string" where
  "trim s = rev (dropWhile isWhiteSpace (rev (dropWhile isWhiteSpace s)))"

definition lowerChar :: "char \<Rightarrow> char" where
  "lowerChar c =
     (let n = (of_char c :: nat)
      in if (65 \<le> n \<and> n \<le> 90) \<or> (192 \<le> n \<and> n \<le> 214) \<or> (216 \<le> n \<and> n \<le> 222)
         then char_of (n + 32) else c)"

definition toLowerCase :: "string \<Rightarrow> string" where
  "toLowerCase s = map lowerChar s"

definition startsWith :: "string \<Rightarrow> string \<Rightarrow> bool" where
  \<comment> \<open>\<^verbatim>\<open>s.startsWith(p)\<close>\<close>
  "startsWith s p \<longleftrightarrow> prefix p s"

definition replaceFirst :: "char \<Rightarrow> string \<Rightarrow> string" where
  \<comment> \<open>\<^verbatim>\<open>s.replace(c, "")\<close> for a one-character pattern: only the first occurrence goes\<close>
  "replaceFirst c s = remove1 c s"

fun split :: "char \<Rightarrow> string \<Rightarrow> string list" where
  "split sep [] = [[]]"
| "split sep (c # cs) =
     (if c = sep then [] # split sep cs
      else (case split sep cs of [] \<Rightarrow> [[c]] | w # ws \<Rightarrow> (c # w) # ws))"

fun join :: "string \<Rightarrow> string list \<Rightarrow> string" where
  "join sep [] = []"
| "join sep [w] = w"
| "join sep (w # v # ws) = w @ sep @ join sep (v # ws)"

definition truthy :: "string option \<Rightarrow> bool" where
  \<comment> \<open>a value that is a string or \<^verbatim>\<open>undefined\<close>: only a non-empty string is truthy\<close>
  "truthy v \<longleftrightarrow> (case v of None \<Rightarrow> False | Some s \<Rightarrow> s \<noteq> [])"

definition propertyKey :: "string option \<Rightarrow> string" where
  \<comment> \<open>the key that \<^verbatim>\<open>obj[v]\<close> reads: \<^verbatim>\<open>undefined\<close> is converted to the string "undefined"\<close>
  "propertyKey v = (case v of None \<Rightarrow> ''undefined'' | Some s \<Rightarrow> s)"

definition isDigit :: "char \<Rightarrow> bool" where
  "isDigit c \<longleftrightarrow> 48 \<le> (of_char c :: nat) \<and> (of_char c :: nat) \<le> 57"

definition digitsValue :: "string \<Rightarrow> int" where
  "digitsValue s = foldl (\<lambda>n c. 10 * n + ((of_char c :: int) - 48)) 0 s"

definition isArrayIndex :: "string \<Rightarrow> bool" where
  \<comment> \<open>a canonical decimal numeral below \<open>2^32 - 1\<close>\<close>
  "isArrayIndex s \<longleftrightarrow>
     s \<noteq> [] \<and> list_all isDigit s \<and> (s = ''0'' \<or> hd s \<noteq> CHR ''0'') \<and>
     digitsValue s < 4294967295"

definition Object_keys :: "(string \<times> 'v) list \<Rightarrow> string list" where
  \<comment> \<open>own keys of an object whose properties are listed in creation order:
      array indices ascending, then the other keys as created\<close>
  "Object_keys obj =
     (let ks = map fst obj
      in sort_key digitsValue (filter isArrayIndex ks) @ filter (\<lambda>k. \<not> isArrayIndex k) ks)"

section \<open>Data of a session\<close>

text \<open>
  A thread object, whether built here or sent by the backend, has these five properties as
  its own; a property whose value is \<^verbatim>\<open>undefined\<close> or \<^verbatim>\<open>null\<close> is \<open>None\<close>.
\<close>

record thread =
  name :: "string option"
  threadID :: string
  color :: "string option"
  lastMessageTimestamp :: "string option"
  unreadCount :: "nat option"

record friend =
  userID :: string
  fullName :: string

record messen_user =
  id_user :: string
  name_user :: string
  friends :: "friend list"

text \<open>
  The values that a read of one of the two dictionaries can give. Both dictionaries are
  plain objects, so a read finds, besides the entries written, what the object inherits:
  the functions of \<^verbatim>\<open>Object.prototype\<close> and, under the key \<^verbatim>\<open>__proto__\<close>, the prototype
  of the dictionary itself.
\<close>

datatype jsval =
    Undefined
  | Str string
  | Num nat
  | Thread thread
  | ObjectPrototype
  | PrototypeFunction string

definition truthyVal :: "jsval \<Rightarrow> bool" where
  "truthyVal v \<longleftrightarrow>
     (case v of Undefined \<Rightarrow> False | Str x \<Rightarrow> x \<noteq> [] | Num n \<Rightarrow> n \<noteq> 0 | Thread t \<Rightarrow> True
      | ObjectPrototype \<Rightarrow> True | PrototypeFunction k \<Rightarrow> True)"

definition objectPrototypeFunctions :: "string list" where
  \<comment> \<open>the keys of the function-valued properties of \<^verbatim>\<open>Object.prototype\<close>\<close>
  "objectPrototypeFunctions =
     [''constructor'', ''__defineGetter__'', ''__defineSetter__'', ''hasOwnProperty'',
      ''__lookupGetter__'', ''__lookupSetter__'', ''isPrototypeOf'', ''propertyIsEnumerable'',
      ''toString'', ''valueOf'', ''toLocaleString'']"

definition functionName :: "string \<Rightarrow> string" where
  \<comment> \<open>the \<^verbatim>\<open>name\<close> of the function found under a key of \<open>objectPrototypeFunctions\<close>\<close>
  "functionName k = (if k = ''constructor'' then ''Object'' else k)"

text \<open>
  The session object, with the state of what it works on made explicit:
  \<open>backend\<close> is the state of the remote service behind \<^verbatim>\<open>this.messen.api\<close>,
  \<open>lockedTarget\<close> the state of the module \<^verbatim>\<open>util/lock\<close>, and \<open>notified\<close> counts the
  calls of \<^verbatim>\<open>helpers.notifyTerminal\<close>. The field \<open>threadCache\<close> holds the own entries of
  \<^verbatim>\<open>this.threadCache\<close> and \<open>threadCacheProto\<close> the thread object that has become its
  prototype, if any; \<open>threadNameToIdMap\<close> holds the own entries of the name index in the
  order of their creation. \<open>objectPrototypeName\<close> is the property \<^verbatim>\<open>name\<close> of
  \<^verbatim>\<open>Object.prototype\<close>, which does not exist at the start.
\<close>

record 'b messer =
  user :: messen_user
  backend :: 'b
  threadCache :: "string \<rightharpoonup> thread"
  threadCacheProto :: "thread option"
  threadNameToIdMap :: "(string \<times> string) list"
  lastThread :: "string option"
  unreadMessagesCount :: nat
  debug :: bool
  lockedTarget :: "string option"
  notified :: nat
  objectPrototypeName :: "string option"

datatype 'e failure = Error string | BackendError 'e

definition InvalidCommand :: "'e failure" where
  "InvalidCommand = Error ''Invalid command - check your syntax''"

definition ThreadNotFound :: "'e failure" where
  "ThreadNotFound = Error ''No threadID could be found.''"

definition FriendNotFound :: "'e failure" where
  "FriendNotFound = Error ''Friend could not be found for thread''"

type_synonym ('b, 'e) api = "string \<Rightarrow> 'b \<Rightarrow> ('e + thread) \<times> 'b"

type_synonym ('b, 'e, 'r) handler =
  "string \<Rightarrow> 'b messer \<Rightarrow> ('e failure + 'r option) \<times> 'b messer"

definition Messer :: "messen_user \<Rightarrow> 'b \<Rightarrow> bool option \<Rightarrow> 'b messer" where
  \<comment> \<open>the constructor; \<open>u\<close> and \<open>b\<close> are what the backend session holds after login\<close>
  "Messer u b debugOption =
     \<lparr>user = u, backend = b, threadCache = Map.empty, threadCacheProto = None,
      threadNameToIdMap = [], lastThread = None, unreadMessagesCount = 0,
      debug = (case debugOption of None \<Rightarrow> False | Some d \<Rightarrow> d),
      lockedTarget = None, notified = 0, objectPrototypeName = None\<rparr>"

section \<open>Operations of a session\<close>

subsection \<open>Reading and writing the two dictionaries\<close>

definition readPrototype :: "'b messer \<Rightarrow> string \<Rightarrow> jsval" where
  \<comment> \<open>what \<^verbatim>\<open>Object.prototype\<close> gives under a key other than \<^verbatim>\<open>__proto__\<close>\<close>
  "readPrototype s k =
     (if k \<in> set objectPrototypeFunctions then PrototypeFunction k
      else if k = ''name''
           then (case objectPrototypeName s of None \<Rightarrow> Undefined | Some n \<Rightarrow> Str n)
           else Undefined)"

definition threadProperty :: "thread \<Rightarrow> string \<Rightarrow> jsval option" where
  \<comment> \<open>the own property of a thread object under a key, \<open>None\<close> where it has none\<close>
  "threadProperty p k =
     (if k = ''name'' then Some (case name p of None \<Rightarrow> Undefined | Some x \<Rightarrow> Str x)
      else if k = ''threadID'' then Some (Str (threadID p))
      else if k = ''color'' then Some (case color p of None \<Rightarrow> Undefined | Some x \<Rightarrow> Str x)
      else if k = ''lastMessageTimestamp''
           then Some (case lastMessageTimestamp p of None \<Rightarrow> Undefined | Some x \<Rightarrow> Str x)
      else if k = ''unreadCount''
           then Some (case unreadCount p of None \<Rightarrow> Undefined | Some n \<Rightarrow> Num n)
      else None)"

definition getById :: "'b messer \<Rightarrow> string \<Rightarrow> jsval" where
  \<comment> \<open>the read \<^verbatim>\<open>this.threadCache[id]\<close>: an own entry, or else what the prototype chain gives\<close>
  "getById s k =
     (case threadCache s k of
        Some t \<Rightarrow> Thread t
      | None \<Rightarrow>
          (case threadCacheProto s of
             None \<Rightarrow> if k = ''__proto__'' then ObjectPrototype else readPrototype s k
           | Some p \<Rightarrow>
               if k = ''__proto__'' then Thread p
               else (case threadProperty p k of Some v \<Rightarrow> v | None \<Rightarrow> readPrototype s k)))"

definition getIdByName :: "'b messer \<Rightarrow> string \<Rightarrow> jsval" where
  \<comment> \<open>the read \<^verbatim>\<open>this.threadNameToIdMap[name]\<close>\<close>
  "getIdByName s n =
     (case map_of (threadNameToIdMap s) n of
        Some i \<Rightarrow> Str i
      | None \<Rightarrow> if n = ''__proto__'' then ObjectPrototype else readPrototype s n)"

definition setThreadCache :: "string \<Rightarrow> thread \<Rightarrow> 'b messer \<Rightarrow> 'b messer" where
  \<comment> \<open>the assignment \<^verbatim>\<open>this.threadCache[k] = obj\<close>: under \<^verbatim>\<open>__proto__\<close>, where the cache has no
      own entry, the setter of \<^verbatim>\<open>Object.prototype\<close> makes \<open>obj\<close> the prototype of the cache\<close>
  "setThreadCache k obj s =
     (if k = ''__proto__'' \<and> threadCache s k = None then s\<lparr>threadCacheProto := Some obj\<rparr>
      else s\<lparr>threadCache := (threadCache s)(k \<mapsto> obj)\<rparr>)"

definition setThreadNameToIdMap :: "string \<Rightarrow> string \<Rightarrow> 'b messer \<Rightarrow> 'b messer" where
  \<comment> \<open>the assignment \<^verbatim>\<open>this.threadNameToIdMap[k] = i\<close>: under \<^verbatim>\<open>__proto__\<close>, where the index has
      no own entry, the setter of \<^verbatim>\<open>Object.prototype\<close> ignores a string\<close>
  "setThreadNameToIdMap k i s =
     (if k = ''__proto__'' \<and> map_of (threadNameToIdMap s) k = None then s
      else s\<lparr>threadNameToIdMap := AList.update k i (threadNameToIdMap s)\<rparr>)"

subsection \<open>The methods\<close>

definition cacheThread :: "thread \<Rightarrow> 'b messer \<Rightarrow> 'b messer" where
  "cacheThread t s =
     (let s1 = setThreadCache (threadID t)
                 \<lparr>name = name t, threadID = threadID t, color = color t,
                  lastMessageTimestamp = lastMessageTimestamp t,
                  unreadCount = unreadCount t\<rparr> s
      in if truthy (name t)
         then setThreadNameToIdMap (the (name t)) (threadID t) s1
         else s1)"

definition cacheAll :: "thread list \<Rightarrow> 'b messer \<Rightarrow> 'b messer" where
  \<comment> \<open>\<^verbatim>\<open>threads.forEach(thread => this.cacheThread(thread))\<close>\<close>
  "cacheAll ts s = foldl (\<lambda>s' t. cacheThread t s') s ts"

definition getThreadById ::
  "('b, 'e) api \<Rightarrow> string \<Rightarrow> bool \<Rightarrow> 'b messer \<Rightarrow> ('e failure + jsval) \<times> 'b messer" where
  "getThreadById getThreadInfo tid requireName s =
     (let cached = getById s tid
      in if truthyVal cached then (Inr cached, s)
         else
          (case getThreadInfo tid (backend s) of
             (Inl err, b') \<Rightarrow> (Inl (BackendError err), s\<lparr>backend := b'\<rparr>)
           | (Inr data, b') \<Rightarrow>
               (let s1 = s\<lparr>backend := b'\<rparr>
                in if \<not> truthy (name data) \<and> requireName
                   then (if tid = id_user (user s1)
                         then (let t = data\<lparr>name := Some (name_user (user s1))\<rparr>
                               in (Inr (Thread t), cacheThread t s1))
                         else (case find (\<lambda>u. userID u = tid) (friends (user s1)) of
                                 None \<Rightarrow> (Inl FriendNotFound, s1)
                               | Some fr \<Rightarrow>
                                   (let t = data\<lparr>name := Some (fullName fr)\<rparr>
                                    in (Inr (Thread t), cacheThread t s1))))
                   else (Inr (Thread data), cacheThread data s1))))"

text \<open>
  In \<open>getThreadByName\<close> the key of the index read is a key that \<^verbatim>\<open>Object.keys\<close> listed, or
  \<^verbatim>\<open>undefined\<close> where none was found, so the read gives an own entry or nothing (lemma
  \<open>index_read_own\<close> below). The thread that \<open>getThreadById\<close> resolves with on a cache hit
  is the object in the cache itself, so the name assigned to it is seen by the cache as
  well. A resolved value that is not a thread object is handed on as it is; only
  \<^verbatim>\<open>Object.prototype\<close> itself, an object without a name, is given one. The value is never
  \<^verbatim>\<open>undefined\<close> (lemma \<open>getThreadById_resolves_truthy\<close> below).
\<close>

definition getThreadByName ::
  "('b, 'e) api \<Rightarrow> string \<Rightarrow> 'b messer \<Rightarrow> ('e failure + jsval) \<times> 'b messer" where
  "getThreadByName getThreadInfo threadName s =
     (let fullThreadName =
            find (\<lambda>n. startsWith (toLowerCase n) (toLowerCase threadName))
              (Object_keys (threadNameToIdMap s));
          tid = map_of (threadNameToIdMap s) (propertyKey fullThreadName)
      in if \<not> truthy tid
         then (case find (\<lambda>n. startsWith (toLowerCase (fullName n)) (toLowerCase threadName))
                      (friends (user s)) of
                 None \<Rightarrow> (Inl ThreadNotFound, s)
               | Some fr \<Rightarrow>
                   (Inr (Thread \<lparr>name = Some (fullName fr), threadID = userID fr, color = None,
                                 lastMessageTimestamp = None, unreadCount = None\<rparr>), s))
         else (case getThreadById getThreadInfo (the tid) False s of
                 (Inl err, s') \<Rightarrow> (Inl err, s')
               | (Inr v, s') \<Rightarrow>
                   (case v of
                      Thread t \<Rightarrow>
                        if \<not> truthy (name t)
                        then (let t' = t\<lparr>name := Some threadName\<rparr>
                              in (Inr (Thread t'),
                                  if \<not> truthyVal (getById s (the tid)) then s'
                                  else if threadCache s (the tid) = None
                                       then s'\<lparr>threadCacheProto := Some t'\<rparr>
                                       else s'\<lparr>threadCache := (threadCache s')(the tid \<mapsto> t')\<rparr>))
                        else (Inr v, s')
                    | ObjectPrototype \<Rightarrow>
                        if \<not> truthy (objectPrototypeName s')
                        then (Inr v, s'\<lparr>objectPrototypeName := Some threadName\<rparr>)
                        else (Inr v, s')
                    | _ \<Rightarrow> (Inr v, s'))))"

definition clear :: "'b messer \<Rightarrow> 'b messer" where
  "clear s =
     (if unreadMessagesCount s = 0 then s
      else s\<lparr>unreadMessagesCount := 0, notified := Suc (notified s)\<rparr>)"

text \<open>
  Modelled from the spec: the module \<^verbatim>\<open>util/lock\<close> is not among the sources. The spec
  gives it one optional value, the pinned target: \<^verbatim>\<open>isLocked()\<close> says whether it is set and
  \<^verbatim>\<open>getLockedTarget()\<close> returns it.
\<close>

definition isLocked :: "'b messer \<Rightarrow> bool" where
  "isLocked s \<longleftrightarrow> lockedTarget s \<noteq> None"

definition getLockedTarget :: "'b messer \<Rightarrow> string" where
  \<comment> \<open>read only where \<open>isLocked\<close> holds\<close>
  "getLockedTarget s = the (lockedTarget s)"

definition processCommand ::
  "(string \<Rightarrow> ('b, 'e, 'r) handler option) \<Rightarrow> string \<Rightarrow> 'b messer
     \<Rightarrow> ('e failure + 'r option) \<times> 'b messer" where
  "processCommand getCommandHandler rawCommand s =
     (let s1 = clear s
      in if length (trim rawCommand) = 0 then (Inr None, s1)
         else
           (let args = split CHR '' '' (replaceFirst CHR 0x0A rawCommand);
                verbHandler = getCommandHandler (hd args);
                (commandHandler, localCommand) =
                  (if isLocked s1
                   then (if trim rawCommand = ''unlock''
                         then (getCommandHandler ''unlock'', rawCommand)
                         else (getCommandHandler ''m'',
                               ''m '' @ [CHR 0x22] @ getLockedTarget s1 @ [CHR 0x22, CHR '' '']
                                 @ join '' '' args))
                   else (verbHandler, rawCommand))
            in case commandHandler of
                 None \<Rightarrow> (Inl InvalidCommand, s1)
               | Some h \<Rightarrow> h localCommand s1))"

section \<open>Notions used to state the properties\<close>

text \<open>
  The invariant of the thread cache as the specification words it: every cached thread sits
  under its own id, and the name index maps the name of a cached thread, when it is not empty,
  to the id of that thread.
\<close>

definition specCacheInvariant :: "'b messer \<Rightarrow> bool" where
  "specCacheInvariant s \<longleftrightarrow>
     (\<forall>i t. getById s i = Thread t \<longrightarrow>
        threadID t = i \<and> (truthy (name t) \<longrightarrow> getIdByName s (the (name t)) = Str i))"

text \<open>A backend that also counts the calls of \<^verbatim>\<open>getThreadInfo\<close> it receives.\<close>

definition counted :: "('b, 'e) api \<Rightarrow> (nat \<times> 'b, 'e) api" where
  "counted getThreadInfo tid =
     (\<lambda>(n, b). case getThreadInfo tid b of (r, b') \<Rightarrow> (r, (Suc n, b')))"

subsection \<open>Sample collaborators\<close>

definition sampleFriend :: friend where
  "sampleFriend = \<lparr>userID = ''42'', fullName = ''Bob Smith''\<rparr>"

definition sampleUser :: messen_user where
  "sampleUser = \<lparr>id_user = ''100'', name_user = ''Me'', friends = [sampleFriend]\<rparr>"

definition sampleThread :: "string \<Rightarrow> string option \<Rightarrow> thread" where
  "sampleThread i n = \<lparr>name = n, threadID = i, color = None,
                       lastMessageTimestamp = None, unreadCount = None\<rparr>"

definition sampleApi :: "('b, string) api" where
  \<comment> \<open>a backend that knows one thread, which has no name\<close>
  "sampleApi tid b =
     (if tid = ''42'' then (Inr (sampleThread ''42'' None), b) else (Inl ''no such thread'', b))"

definition sendStub :: "('b, 'e, string) handler" where
  \<comment> \<open>stands for the handler of \<^verbatim>\<open>m\<close>: it resolves with the line it was given\<close>
  "sendStub line s = (Inr (Some line), s)"

definition unlockStub :: "('b, 'e, string) handler" where
  \<comment> \<open>stands for the handler of \<^verbatim>\<open>unlock\<close>: it unsets the pinned target\<close>
  "unlockStub line s = (Inr None, s\<lparr>lockedTarget := None\<rparr>)"

definition sampleRegistry :: "string \<Rightarrow> ('b, 'e, string) handler option" where
  "sampleRegistry v =
     (if v = ''m'' then Some sendStub else if v = ''unlock'' then Some unlockStub else None)"

definition lockedOn :: "string \<Rightarrow> unit messer" where
  \<comment> \<open>a session pinned to a target, with three unread messages\<close>
  "lockedOn T = (Messer sampleUser () None)\<lparr>lockedTarget := Some T, unreadMessagesCount := 3\<rparr>"


definition bumpHandler :: "('b, 'e, string) handler" where
  \<comment> \<open>a handler that counts five unread messages\<close>
  "bumpHandler line s = (Inr None, s\<lparr>unreadMessagesCount := 5\<rparr>)"

definition bumpRegistry :: "string \<Rightarrow> ('b, 'e, string) handler option" where
  "bumpRegistry v = Some bumpHandler"

section \<open>Facts about the string functions\<close>

lemma split_not_Nil: "split sep s \<noteq> []"
  by (induction s) (auto split: list.splits)

text \<open>Splitting at a separator and joining with it again gives the string back.\<close>

lemma join_split: "join [sep] (split sep s) = s"
proof (induction s)
  case Nil
  show ?case by simp
next
  case (Cons c cs)
  obtain w ws where "split sep cs = w # ws"
    using split_not_Nil [of sep cs] by (cases "split sep cs") auto
  with Cons show ?case by (cases ws) auto
qed

lemma join_split_space: "join '' '' (split CHR '' '' x) = x"
  using join_split [of "CHR '' ''" x] by simp

lemma set_Object_keys: "set (Object_keys obj) = fst ` set obj"
  by (auto simp: Object_keys_def Let_def)

lemma find_no_key:
  assumes "\<forall>n \<in> fst ` set obj. \<not> P n"
  shows "find P (Object_keys obj) = None"
  using assms by (simp add: find_None_iff set_Object_keys)

lemma find_Some_set: "find P xs = Some x \<Longrightarrow> x \<in> set xs \<and> P x"
  by (induction xs) (auto split: if_splits)

lemma lower_samples:
  "toLowerCase ''Bob Smith'' = ''bob smith''"
  "toLowerCase ''bob'' = ''bob''"
  "toLowerCase ''zed'' = ''zed''"
  "toLowerCase ''undefined'' = ''undefined''"
  by code_simp+

lemma trim_hello: "trim ''hello there'' = ''hello there''"
  by (simp add: trim_def isWhiteSpace_def)

section \<open>The thread cache\<close>

lemma thread_copy:
  "\<lparr>name = name t, threadID = threadID t, color = color t,
    lastMessageTimestamp = lastMessageTimestamp t, unreadCount = unreadCount t\<rparr> = t"
  by (cases t) simp

lemma threadProperty_not_Thread: "threadProperty p k \<noteq> Some (Thread t)"
  by (simp add: threadProperty_def split: option.splits)

lemma readPrototype_not_Thread: "readPrototype s k \<noteq> Thread t"
  by (simp add: readPrototype_def split: option.splits)

lemma readPrototype_not_Str:
  "objectPrototypeName s = None \<Longrightarrow> readPrototype s k \<noteq> Str i"
  by (simp add: readPrototype_def)

lemma threadCache_cacheThread:
  "threadCache (cacheThread t s) =
     (if threadID t = ''__proto__'' \<and> threadCache s ''__proto__'' = None then threadCache s
      else (threadCache s)(threadID t \<mapsto> t))"
  by (auto simp: cacheThread_def setThreadCache_def setThreadNameToIdMap_def Let_def thread_copy)

lemma threadCacheProto_cacheThread:
  "threadCacheProto (cacheThread t s) =
     (if threadID t = ''__proto__'' \<and> threadCache s ''__proto__'' = None then Some t
      else threadCacheProto s)"
  by (auto simp: cacheThread_def setThreadCache_def setThreadNameToIdMap_def Let_def thread_copy)

lemma threadNameToIdMap_cacheThread:
  "threadNameToIdMap (cacheThread t s) =
     (if truthy (name t) \<and>
         \<not> (the (name t) = ''__proto__'' \<and> map_of (threadNameToIdMap s) ''__proto__'' = None)
      then AList.update (the (name t)) (threadID t) (threadNameToIdMap s)
      else threadNameToIdMap s)"
  by (auto simp: cacheThread_def setThreadCache_def setThreadNameToIdMap_def Let_def)

lemma backend_cacheThread: "backend (cacheThread t s) = backend s"
  by (simp add: cacheThread_def setThreadCache_def setThreadNameToIdMap_def Let_def)

lemma objectPrototypeName_cacheThread:
  "objectPrototypeName (cacheThread t s) = objectPrototypeName s"
  by (simp add: cacheThread_def setThreadCache_def setThreadNameToIdMap_def Let_def)

text \<open>A thread that has just been cached is read back under its id, whatever the id is.\<close>

lemma getById_cacheThread_same: "getById (cacheThread t s) (threadID t) = Thread t"
  by (simp add: getById_def threadCache_cacheThread threadCacheProto_cacheThread)

text \<open>
  For a thread \<open>t\<close> with a non-empty name other than \<^verbatim>\<open>__proto__\<close>, after \<open>cacheThread t\<close> the
  name index maps the name of \<open>t\<close> to the id of \<open>t\<close>, and the cache holds under that id a
  record equal to \<open>t\<close>.
\<close>

lemma cacheThread_then_lookup:
  assumes "truthy (name t)" and "the (name t) \<noteq> ''__proto__''"
  shows "getIdByName (cacheThread t s) (the (name t)) = Str (threadID t) \<and>
         getById (cacheThread t s) (threadID t) = Thread t"
  using assms
  by (simp add: getIdByName_def threadNameToIdMap_cacheThread update_conv' getById_cacheThread_same)

text \<open>
  C3 fails on the code. A thread named \<^verbatim>\<open>__proto__\<close> is cached under its id, but the
  assignment to the name index is taken by the setter of \<^verbatim>\<open>Object.prototype\<close>, which ignores
  a string: the index has no entry, and a read under the name gives \<^verbatim>\<open>Object.prototype\<close>
  and not the id.
\<close>

theorem cacheThread_proto_name_not_indexed:
  "truthy (name (sampleThread ''5'' (Some ''__proto__''))) \<and>
   threadNameToIdMap
     (cacheThread (sampleThread ''5'' (Some ''__proto__'')) (Messer sampleUser () None)) = [] \<and>
   getIdByName
     (cacheThread (sampleThread ''5'' (Some ''__proto__'')) (Messer sampleUser () None))
     ''__proto__'' = ObjectPrototype \<and>
   getById
     (cacheThread (sampleThread ''5'' (Some ''__proto__'')) (Messer sampleUser () None)) ''5''
     = Thread (sampleThread ''5'' (Some ''__proto__''))"
  by (simp add: getIdByName_def getById_def threadNameToIdMap_cacheThread
      threadCache_cacheThread sampleThread_def truthy_def Messer_def)

lemma cacheAll_snoc: "cacheAll (ts @ [t]) s = cacheThread t (cacheAll ts s)"
  by (simp add: cacheAll_def)

lemma threadCache_cacheAll:
  "threadCache (cacheAll ts (Messer u b d)) i =
     (if i = ''__proto__'' then None else find (\<lambda>t. threadID t = i) (rev ts))"
proof (induction ts arbitrary: i rule: rev_induct)
  case Nil
  show ?case by (simp add: cacheAll_def Messer_def)
next
  case (snoc t ts)
  then show ?case by (simp add: cacheAll_snoc threadCache_cacheThread)
qed

lemma threadCacheProto_cacheAll:
  "threadCacheProto (cacheAll ts (Messer u b d)) = find (\<lambda>t. threadID t = ''__proto__'') (rev ts)"
proof (induction ts rule: rev_induct)
  case Nil
  show ?case by (simp add: cacheAll_def Messer_def)
next
  case (snoc t ts)
  then show ?case
    by (simp add: cacheAll_snoc threadCacheProto_cacheThread threadCache_cacheAll)
qed

lemma threadNameToIdMap_cacheAll:
  "map_of (threadNameToIdMap (cacheAll ts (Messer u b d))) n =
     (if n = ''__proto__'' then None
      else map_option threadID (find (\<lambda>t. truthy (name t) \<and> the (name t) = n) (rev ts)))"
proof (induction ts arbitrary: n rule: rev_induct)
  case Nil
  show ?case by (simp add: cacheAll_def Messer_def)
next
  case (snoc t ts)
  then show ?case
    by (auto simp: cacheAll_snoc threadNameToIdMap_cacheThread update_conv')
qed

lemma objectPrototypeName_cacheAll: "objectPrototypeName (cacheAll ts (Messer u b d)) = None"
  by (induction ts rule: rev_induct)
     (simp_all add: cacheAll_snoc objectPrototypeName_cacheThread cacheAll_def Messer_def)

lemma getById_cacheAll:
  "getById (cacheAll ts (Messer u b d)) i = Thread t \<longleftrightarrow>
     find (\<lambda>t. threadID t = i) (rev ts) = Some t"
  by (auto simp: getById_def threadCache_cacheAll threadCacheProto_cacheAll
      threadProperty_not_Thread readPrototype_not_Thread split: option.splits)

lemma getIdByName_cacheAll:
  "getIdByName (cacheAll ts (Messer u b d)) n = Str i \<longleftrightarrow>
     n \<noteq> ''__proto__'' \<and>
     map_option threadID (find (\<lambda>t. truthy (name t) \<and> the (name t) = n) (rev ts)) = Some i"
  by (auto simp: getIdByName_def threadNameToIdMap_cacheAll
      readPrototype_not_Str [OF objectPrototypeName_cacheAll] split: option.splits)

section \<open>The invariant of the thread cache\<close>

text \<open>
  C4, as amended. After any sequence of \<open>cacheThread\<close> calls on a new session, the thread
  read from the cache under an id is the last thread written with that id, and the id read
  from the name index under a name other than \<^verbatim>\<open>__proto__\<close> is the id of the last thread
  written with that non-empty name. Hence every cached thread sits under its own id, and
  every id in the name index stands under a non-empty name, stems from a written thread of
  that name and id, and is an id under which a thread is cached. Two names map to one id
  only where that id was written under both.
\<close>

theorem cacheAll_last_write_wins:
  "(\<forall>i t. getById (cacheAll ts (Messer u b d)) i = Thread t \<longleftrightarrow>
          find (\<lambda>t. threadID t = i) (rev ts) = Some t) \<and>
   (\<forall>n i. n \<noteq> ''__proto__'' \<longrightarrow>
          (getIdByName (cacheAll ts (Messer u b d)) n = Str i \<longleftrightarrow>
           map_option threadID (find (\<lambda>t. truthy (name t) \<and> the (name t) = n) (rev ts))
             = Some i)) \<and>
   (\<forall>i t. getById (cacheAll ts (Messer u b d)) i = Thread t \<longrightarrow> threadID t = i) \<and>
   (\<forall>n i. getIdByName (cacheAll ts (Messer u b d)) n = Str i \<longrightarrow>
          n \<noteq> [] \<and> (\<exists>t \<in> set ts. name t = Some n \<and> threadID t = i) \<and>
          (\<exists>t'. getById (cacheAll ts (Messer u b d)) i = Thread t'))"
proof -
  define s where "s = cacheAll ts (Messer u b d)"
  have a: "getById s i = Thread t \<longleftrightarrow> find (\<lambda>t. threadID t = i) (rev ts) = Some t" for i t
    by (simp add: s_def getById_cacheAll)
  have b: "getIdByName s n = Str i \<longleftrightarrow>
             n \<noteq> ''__proto__'' \<and>
             map_option threadID (find (\<lambda>t. truthy (name t) \<and> the (name t) = n) (rev ts)) = Some i"
    for n i
    by (simp add: s_def getIdByName_cacheAll)
  have c: "threadID t = i" if "getById s i = Thread t" for i t
    using that find_Some_set [of "\<lambda>t. threadID t = i" "rev ts" t] by (simp add: a)
  have d: "n \<noteq> [] \<and> (\<exists>t \<in> set ts. name t = Some n \<and> threadID t = i) \<and> (\<exists>t'. getById s i = Thread t')"
    if "getIdByName s n = Str i" for n i
  proof -
    from that obtain t where t: "find (\<lambda>t. truthy (name t) \<and> the (name t) = n) (rev ts) = Some t"
      and i: "threadID t = i" by (auto simp: b)
    from find_Some_set [OF t] have in_ts: "t \<in> set ts" and tr: "truthy (name t)"
      and nm: "the (name t) = n" by auto
    from tr nm have n: "n \<noteq> []" and nt: "name t = Some n"
      by (auto simp: truthy_def split: option.splits)
    have "find (\<lambda>t. threadID t = i) (rev ts) \<noteq> None"
      using in_ts i by (auto simp: find_None_iff)
    then obtain t' where "find (\<lambda>t. threadID t = i) (rev ts) = Some t'" by auto
    then have "getById s i = Thread t'" by (simp add: a)
    with n nt in_ts i show ?thesis by auto
  qed
  from a b c d show ?thesis unfolding s_def by blast
qed

text \<open>Sam is cached as thread 1, then thread 2 is cached as Sam and again as Kim.\<close>

theorem cacheAll_last_write_wins_witness:
  "getById (cacheAll [sampleThread ''1'' (Some ''Sam''), sampleThread ''2'' (Some ''Sam''),
                      sampleThread ''2'' (Some ''Kim'')] (Messer sampleUser () None)) ''1''
     = Thread (sampleThread ''1'' (Some ''Sam'')) \<and>
   getById (cacheAll [sampleThread ''1'' (Some ''Sam''), sampleThread ''2'' (Some ''Sam''),
                      sampleThread ''2'' (Some ''Kim'')] (Messer sampleUser () None)) ''2''
     = Thread (sampleThread ''2'' (Some ''Kim'')) \<and>
   getIdByName (cacheAll [sampleThread ''1'' (Some ''Sam''), sampleThread ''2'' (Some ''Sam''),
                      sampleThread ''2'' (Some ''Kim'')] (Messer sampleUser () None)) ''Sam''
     = Str ''2'' \<and>
   getIdByName (cacheAll [sampleThread ''1'' (Some ''Sam''), sampleThread ''2'' (Some ''Sam''),
                      sampleThread ''2'' (Some ''Kim'')] (Messer sampleUser () None)) ''Kim''
     = Str ''2''"
proof -
  note w = cacheAll_last_write_wins
    [of "[sampleThread ''1'' (Some ''Sam''), sampleThread ''2'' (Some ''Sam''),
          sampleThread ''2'' (Some ''Kim'')]" sampleUser "()" None]
  note byId = w [THEN conjunct1, THEN spec, THEN spec]
  note byName = w [THEN conjunct2, THEN conjunct1, THEN spec, THEN spec, THEN mp]
  have sam: "''Sam'' \<noteq> ''__proto__''" and kim: "''Kim'' \<noteq> ''__proto__''" by simp_all
  show ?thesis
    using byId [of "''1''" "sampleThread ''1'' (Some ''Sam'')"]
      byId [of "''2''" "sampleThread ''2'' (Some ''Kim'')"]
      byName [of "''Sam''" "''2''", OF sam] byName [of "''Kim''" "''2''", OF kim]
    by (simp add: sampleThread_def truthy_def)
qed

text \<open>
  C4 as stated fails: once a second thread is cached under the name of a first one, the
  first is still cached with that name, but the name index leads to the second.
\<close>

theorem cache_invariant_counterexample:
  "\<not> specCacheInvariant
       (cacheAll [sampleThread ''1'' (Some ''Sam''), sampleThread ''2'' (Some ''Sam'')]
          (Messer sampleUser () None))"
proof
  assume "specCacheInvariant
       (cacheAll [sampleThread ''1'' (Some ''Sam''), sampleThread ''2'' (Some ''Sam'')]
          (Messer sampleUser () None))"
  then have "getById (cacheAll [sampleThread ''1'' (Some ''Sam''), sampleThread ''2'' (Some ''Sam'')]
          (Messer sampleUser () None)) ''1'' = Thread (sampleThread ''1'' (Some ''Sam'')) \<longrightarrow>
      (truthy (name (sampleThread ''1'' (Some ''Sam''))) \<longrightarrow>
       getIdByName (cacheAll [sampleThread ''1'' (Some ''Sam''), sampleThread ''2'' (Some ''Sam'')]
          (Messer sampleUser () None)) (the (name (sampleThread ''1'' (Some ''Sam'')))) = Str ''1'')"
    unfolding specCacheInvariant_def by blast
  then show False
    by (simp add: getById_cacheAll getIdByName_cacheAll sampleThread_def truthy_def)
qed

section \<open>Fetching a thread by id\<close>

text \<open>What \<open>getThreadById\<close> resolves with is never \<^verbatim>\<open>undefined\<close>.\<close>

lemma getThreadById_resolves_truthy:
  assumes "getThreadById getThreadInfo tid requireName s = (Inr v, s')"
  shows "truthyVal v"
  using assms
  by (auto simp: getThreadById_def truthyVal_def Let_def
      split: if_splits prod.splits sum.splits option.splits)




text \<open>
  C9. For an id that is in the cache, \<open>getThreadById\<close> returns the cached thread and leaves
  the state as it is, whatever \<open>requireName\<close> says and whether the thread has a name or not;
  so it does for whatever else a read of the cache under the id finds. The failure
  \<open>FriendNotFound\<close> arises only for an id under which nothing is found.
\<close>

theorem getThreadById_cache_hit:
  "(threadCache s tid = Some t \<longrightarrow>
      getThreadById getThreadInfo tid requireName s = (Inr (Thread t), s)) \<and>
   (truthyVal (getById s tid) \<longrightarrow>
      getThreadById getThreadInfo tid requireName s = (Inr (getById s tid), s)) \<and>
   (fst (getThreadById getThreadInfo tid requireName s) = Inl FriendNotFound \<longrightarrow>
      threadCache s tid = None \<and> \<not> truthyVal (getById s tid))"
  by (auto simp: getThreadById_def getById_def truthyVal_def FriendNotFound_def Let_def
      split: option.splits)

text \<open>
  A cached thread without a name is returned as it is although a name is required; without
  the cache and without a matching friend the same request fails.
\<close>

theorem getThreadById_cache_hit_witness:
  "threadCache (cacheThread (sampleThread ''5'' None) (Messer sampleUser () None)) ''5''
     = Some (sampleThread ''5'' None) \<and>
   getThreadById sampleApi ''5'' True
       (cacheThread (sampleThread ''5'' None) (Messer sampleUser () None)) =
     (Inr (Thread (sampleThread ''5'' None)),
      cacheThread (sampleThread ''5'' None) (Messer sampleUser () None)) \<and>
   fst (getThreadById sampleApi ''42'' True
         (Messer \<lparr>id_user = ''100'', name_user = ''Me'', friends = []\<rparr> () None))
     = Inl FriendNotFound \<and>
   threadCache (Messer \<lparr>id_user = ''100'', name_user = ''Me'', friends = []\<rparr> () None) ''42''
     = None"
proof -
  have a: "threadCache (cacheThread (sampleThread ''5'' None) (Messer sampleUser () None)) ''5''
     = Some (sampleThread ''5'' None)"
    by (simp add: threadCache_cacheThread sampleThread_def)
  have b: "fst (getThreadById sampleApi ''42'' True
         (Messer \<lparr>id_user = ''100'', name_user = ''Me'', friends = []\<rparr> () None))
     = Inl FriendNotFound"
    by (simp add: getThreadById_def getById_def readPrototype_def objectPrototypeFunctions_def
        truthyVal_def sampleApi_def sampleThread_def Messer_def truthy_def Let_def)
  from getThreadById_cache_hit
         [of "cacheThread (sampleThread ''5'' None) (Messer sampleUser () None)" "''5''"
             "sampleThread ''5'' None" sampleApi True]
       getThreadById_cache_hit
         [of "Messer \<lparr>id_user = ''100'', name_user = ''Me'', friends = []\<rparr> () None" "''42''"
             "sampleThread ''5'' None" sampleApi True]
       a b
  show ?thesis by blast
qed

text \<open>
  C10. Whenever \<open>getThreadById\<close> fails, the thread cache and the name index are what they
  were before the call.
\<close>

theorem getThreadById_failure_leaves_cache:
  assumes "getThreadById getThreadInfo tid requireName s = (Inl e, s')"
  shows "threadCache s' = threadCache s \<and> threadNameToIdMap s' = threadNameToIdMap s \<and>
         threadCacheProto s' = threadCacheProto s"
  using assms
  by (auto simp: getThreadById_def Let_def split: option.splits prod.splits sum.splits if_splits)

text \<open>The backend is asked, and counts the call, but the cache and the index stay.\<close>

theorem getThreadById_failure_leaves_cache_witness:
  "getThreadById (counted sampleApi) ''7'' False
       (cacheThread (sampleThread ''5'' (Some ''Kim'')) (Messer sampleUser (0::nat, ()) None)) =
     (Inl (BackendError ''no such thread''),
      (cacheThread (sampleThread ''5'' (Some ''Kim'')) (Messer sampleUser (0::nat, ()) None))
        \<lparr>backend := (Suc 0, ())\<rparr>) \<and>
   threadCache ((cacheThread (sampleThread ''5'' (Some ''Kim'')) (Messer sampleUser (0::nat, ()) None))
        \<lparr>backend := (Suc 0, ())\<rparr>) =
     threadCache (cacheThread (sampleThread ''5'' (Some ''Kim'')) (Messer sampleUser (0::nat, ()) None)) \<and>
   threadNameToIdMap ((cacheThread (sampleThread ''5'' (Some ''Kim'')) (Messer sampleUser (0::nat, ()) None))
        \<lparr>backend := (Suc 0, ())\<rparr>) = [(''Kim'', ''5'')]"
proof -
  have a: "getThreadById (counted sampleApi) ''7'' False
       (cacheThread (sampleThread ''5'' (Some ''Kim'')) (Messer sampleUser (0::nat, ()) None)) =
     (Inl (BackendError ''no such thread''),
      (cacheThread (sampleThread ''5'' (Some ''Kim'')) (Messer sampleUser (0::nat, ()) None))
        \<lparr>backend := (Suc 0, ())\<rparr>)"
    by (simp add: getThreadById_def getById_def counted_def sampleApi_def threadCache_cacheThread
        threadCacheProto_cacheThread objectPrototypeName_cacheThread readPrototype_def
        objectPrototypeFunctions_def truthyVal_def backend_cacheThread sampleThread_def Messer_def)
  have n: "threadNameToIdMap
       (cacheThread (sampleThread ''5'' (Some ''Kim'')) (Messer sampleUser (0::nat, ()) None)) =
       [(''Kim'', ''5'')]"
    by (simp add: threadNameToIdMap_cacheThread sampleThread_def Messer_def truthy_def)
  from getThreadById_failure_leaves_cache [OF a] a n show ?thesis by simp
qed

section \<open>Resolving a thread by name\<close>

text \<open>
  The read of the name index in \<open>getThreadByName\<close> never finds anything inherited: its key
  is a key of an own entry, or \<^verbatim>\<open>undefined\<close>, under which \<^verbatim>\<open>Object.prototype\<close> has nothing.
\<close>

lemma index_read_own:
  "getIdByName s (propertyKey (find P (Object_keys (threadNameToIdMap s)))) =
     (case map_of (threadNameToIdMap s) (propertyKey (find P (Object_keys (threadNameToIdMap s)))) of
        None \<Rightarrow> Undefined
      | Some i \<Rightarrow> Str i)"
proof (cases "find P (Object_keys (threadNameToIdMap s))")
  case None
  then show ?thesis
    by (simp add: getIdByName_def propertyKey_def readPrototype_def objectPrototypeFunctions_def
        split: option.splits)
next
  case (Some n)
  from find_Some_set [OF Some] have "n \<in> fst ` set (threadNameToIdMap s)"
    by (simp add: set_Object_keys)
  then have "map_of (threadNameToIdMap s) n \<noteq> None"
    by (simp add: map_of_eq_None_iff)
  with Some show ?thesis
    by (auto simp: getIdByName_def propertyKey_def)
qed

text \<open>
  When the typed name is a prefix of no cached name, and the name index has no usable entry
  under the key \<^verbatim>\<open>undefined\<close>, the resolver goes to the friends: the first friend whose full
  name starts with the typed name gives a thread made of the friend's id and full name, and
  nothing is written; without such a friend the resolver fails with \<open>ThreadNotFound\<close>.
\<close>

lemma getThreadByName_friends_path:
  assumes "\<forall>n \<in> fst ` set (threadNameToIdMap s).
             \<not> startsWith (toLowerCase n) (toLowerCase threadName)"
      and "\<not> truthyVal (getIdByName s ''undefined'')"
  shows "getThreadByName getThreadInfo threadName s =
           (case find (\<lambda>n. startsWith (toLowerCase (fullName n)) (toLowerCase threadName))
                   (friends (user s)) of
              None \<Rightarrow> (Inl ThreadNotFound, s)
            | Some fr \<Rightarrow>
                (Inr (Thread \<lparr>name = Some (fullName fr), threadID = userID fr, color = None,
                              lastMessageTimestamp = None, unreadCount = None\<rparr>), s))"
proof -
  from assms(2) have "\<not> truthy (map_of (threadNameToIdMap s) ''undefined'')"
    by (simp add: getIdByName_def truthyVal_def truthy_def split: option.splits)
  with find_no_key [OF assms(1)] show ?thesis
    by (simp add: getThreadByName_def Let_def propertyKey_def)
qed

text \<open>With an empty cache and the friend Bob Smith, \<^verbatim>\<open>bob\<close> resolves to the friend.\<close>

lemma getThreadByName_empty_cache_bob:
  "getThreadByName sampleApi ''bob'' (Messer sampleUser () None) =
     (Inr (Thread \<lparr>name = Some ''Bob Smith'', threadID = ''42'', color = None,
                   lastMessageTimestamp = None, unreadCount = None\<rparr>),
      Messer sampleUser () None)"
proof -
  have "getThreadByName sampleApi ''bob'' (Messer sampleUser () None) =
           (case find (\<lambda>n. startsWith (toLowerCase (fullName n)) (toLowerCase ''bob''))
                   (friends (user (Messer sampleUser () None))) of
              None \<Rightarrow> (Inl ThreadNotFound, Messer sampleUser () None)
            | Some fr \<Rightarrow>
                (Inr (Thread \<lparr>name = Some (fullName fr), threadID = userID fr, color = None,
                      lastMessageTimestamp = None, unreadCount = None\<rparr>),
                 Messer sampleUser () None))"
    by (rule getThreadByName_friends_path)
       (simp_all add: Messer_def getIdByName_def readPrototype_def objectPrototypeFunctions_def
          truthyVal_def)
  then show ?thesis
    by (simp add: Messer_def sampleUser_def sampleFriend_def startsWith_def lower_samples)
qed

text \<open>
  The lookup \<^verbatim>\<open>this.threadNameToIdMap[fullThreadName]\<close> is made also when no key was found.
  Then \<^verbatim>\<open>fullThreadName\<close> is \<^verbatim>\<open>undefined\<close>, and the lookup reads the entry of a thread that
  is named "undefined", if there is one.
\<close>

lemma undefined_keys:
  "Object_keys [(''undefined'', v)] = [''undefined'']"
  by (simp add: Object_keys_def isArrayIndex_def isDigit_def)

lemma undefined_cached:
  "cacheThread (sampleThread ''7'' (Some ''undefined'')) (Messer sampleUser () None) =
     (Messer sampleUser () None)
       \<lparr>threadCache := [''7'' \<mapsto> sampleThread ''7'' (Some ''undefined'')],
        threadNameToIdMap := [(''undefined'', ''7'')]\<rparr>"
  by (simp add: cacheThread_def setThreadCache_def setThreadNameToIdMap_def sampleThread_def
      Messer_def truthy_def Let_def)

text \<open>
  C6 fails on the code. A thread named "undefined" is cached; \<^verbatim>\<open>bob\<close> is a prefix of no
  cached name and the friend Bob Smith matches it, yet the resolver returns the thread named
  "undefined" and never looks at the friends.
\<close>

theorem getThreadByName_undefined_name_hides_friend:
  "find (\<lambda>n. startsWith (toLowerCase n) (toLowerCase ''bob''))
     (Object_keys (threadNameToIdMap
        (cacheThread (sampleThread ''7'' (Some ''undefined'')) (Messer sampleUser () None)))) = None \<and>
   find (\<lambda>n. startsWith (toLowerCase (fullName n)) (toLowerCase ''bob''))
     (friends (user (cacheThread (sampleThread ''7'' (Some ''undefined''))
        (Messer sampleUser () None)))) = Some sampleFriend \<and>
   getThreadByName sampleApi ''bob''
     (cacheThread (sampleThread ''7'' (Some ''undefined'')) (Messer sampleUser () None)) =
   (Inr (Thread (sampleThread ''7'' (Some ''undefined''))),
    cacheThread (sampleThread ''7'' (Some ''undefined'')) (Messer sampleUser () None))"
  unfolding undefined_cached
  by (simp add: getThreadByName_def getThreadById_def getById_def truthyVal_def
      sampleThread_def Messer_def sampleUser_def sampleFriend_def truthy_def undefined_keys
      startsWith_def lower_samples propertyKey_def Let_def)

text \<open>
  C7 fails on the code. With the same cache, \<^verbatim>\<open>zed\<close> is a prefix of no cached name and of no
  friend's name, yet the resolver returns the thread named "undefined" and does not fail.
\<close>

theorem getThreadByName_undefined_name_hides_failure:
  "find (\<lambda>n. startsWith (toLowerCase n) (toLowerCase ''zed''))
     (Object_keys (threadNameToIdMap
        (cacheThread (sampleThread ''7'' (Some ''undefined'')) (Messer sampleUser () None)))) = None \<and>
   find (\<lambda>n. startsWith (toLowerCase (fullName n)) (toLowerCase ''zed''))
     (friends (user (cacheThread (sampleThread ''7'' (Some ''undefined''))
        (Messer sampleUser () None)))) = None \<and>
   getThreadByName sampleApi ''zed''
     (cacheThread (sampleThread ''7'' (Some ''undefined'')) (Messer sampleUser () None)) =
   (Inr (Thread (sampleThread ''7'' (Some ''undefined''))),
    cacheThread (sampleThread ''7'' (Some ''undefined'')) (Messer sampleUser () None))"
  unfolding undefined_cached
  by (simp add: getThreadByName_def getThreadById_def getById_def truthyVal_def
      sampleThread_def Messer_def sampleUser_def sampleFriend_def truthy_def undefined_keys
      startsWith_def lower_samples propertyKey_def Let_def)

section \<open>Dispatching a command\<close>

lemma clear_lockedTarget: "lockedTarget (clear s) = lockedTarget s"
  by (simp add: clear_def)

lemma clear_unread: "unreadMessagesCount (clear s) = 0"
  by (simp add: clear_def)

lemma clear_idem: "clear (clear s) = clear s"
  by (simp add: clear_def)

text \<open>
  C1, as amended. With a pinned target \<open>T\<close>, an input whose trimmed form is neither empty
  nor \<^verbatim>\<open>unlock\<close> goes to the handler of \<^verbatim>\<open>m\<close>, with the line \<^verbatim>\<open>m "T" \<close> followed by
  the input from which the first newline character has been removed. For an input without
  a newline this is the input itself.
\<close>

theorem processCommand_locked_rewrite:
  assumes "lockedTarget s = Some T"
      and "trim L \<noteq> []" and "trim L \<noteq> ''unlock''"
      and "getCommandHandler ''m'' = Some h"
  shows "processCommand getCommandHandler L s =
           h (''m '' @ [CHR 0x22] @ T @ [CHR 0x22, CHR '' ''] @ replaceFirst CHR 0x0A L) (clear s) \<and>
         (CHR 0x0A \<notin> set L \<longrightarrow>
            processCommand getCommandHandler L s =
              h (''m '' @ [CHR 0x22] @ T @ [CHR 0x22, CHR '' ''] @ L) (clear s))"
  using assms
  by (simp add: processCommand_def Let_def isLocked_def getLockedTarget_def clear_lockedTarget
      join_split_space replaceFirst_def remove1_idem)

text \<open>Pinned to Alice, the input \<^verbatim>\<open>hello there\<close> reaches \<^verbatim>\<open>m\<close> as \<^verbatim>\<open>m "Alice" hello there\<close>.\<close>

theorem processCommand_locked_rewrite_witness:
  "lockedTarget (lockedOn ''Alice'') = Some ''Alice'' \<and>
   trim ''hello there'' \<noteq> [] \<and> trim ''hello there'' \<noteq> ''unlock'' \<and>
   (sampleRegistry :: string \<Rightarrow> (unit, string, string) handler option) ''m'' = Some sendStub \<and>
   CHR 0x0A \<notin> set ''hello there'' \<and>
   fst (processCommand (sampleRegistry :: string \<Rightarrow> (unit, string, string) handler option)
          ''hello there'' (lockedOn ''Alice'')) =
     Inr (Some (''m '' @ [CHR 0x22] @ ''Alice'' @ [CHR 0x22] @ '' hello there''))"
proof -
  have a: "lockedTarget (lockedOn ''Alice'') = Some ''Alice''"
    by (simp add: lockedOn_def)
  have b: "trim ''hello there'' \<noteq> []" and c: "trim ''hello there'' \<noteq> ''unlock''"
    by (simp_all add: trim_hello)
  have d: "(sampleRegistry :: string \<Rightarrow> (unit, string, string) handler option) ''m'' = Some sendStub"
    by (simp add: sampleRegistry_def)
  have e: "CHR 0x0A \<notin> set ''hello there''" by simp
  from processCommand_locked_rewrite
         [of "lockedOn ''Alice''" "''Alice''" "''hello there''" sampleRegistry sendStub,
          OF a b c d] a b c d e
  show ?thesis
    by (simp add: sendStub_def replaceFirst_def)
qed

text \<open>
  C1 as stated fails for an input that ends with the newline of the line reader: the
  handler does not receive the whole input after the quoted target.
\<close>

theorem processCommand_locked_verbatim_counterexample:
  "lockedTarget (lockedOn ''Alice'') = Some ''Alice'' \<and>
   trim (''hello there'' @ [CHR 0x0A]) \<noteq> [] \<and>
   trim (''hello there'' @ [CHR 0x0A]) \<noteq> ''unlock'' \<and>
   (sampleRegistry :: string \<Rightarrow> (unit, string, string) handler option) ''m'' = Some sendStub \<and>
   processCommand (sampleRegistry :: string \<Rightarrow> (unit, string, string) handler option)
       (''hello there'' @ [CHR 0x0A]) (lockedOn ''Alice'') \<noteq>
     sendStub (''m '' @ [CHR 0x22] @ ''Alice'' @ [CHR 0x22, CHR '' ''] @ (''hello there'' @ [CHR 0x0A]))
       (clear (lockedOn ''Alice''))"
  by (simp add: processCommand_def Let_def isLocked_def getLockedTarget_def clear_lockedTarget
      join_split_space replaceFirst_def trim_def isWhiteSpace_def lockedOn_def sampleRegistry_def
      sendStub_def)

text \<open>
  C5. With a pinned target, an input whose trimmed form is exactly \<^verbatim>\<open>unlock\<close> goes to the
  handler of \<^verbatim>\<open>unlock\<close>, whatever the registry holds for \<^verbatim>\<open>m\<close>, and the handler receives
  the input as typed: the test for \<^verbatim>\<open>unlock\<close> comes before the rewrite.
\<close>

theorem processCommand_unlock_escape:
  assumes "lockedTarget s = Some T"
      and "trim L = ''unlock''"
      and "getCommandHandler ''unlock'' = Some h"
  shows "processCommand getCommandHandler L s = h L (clear s)"
  using assms
  by (simp add: processCommand_def Let_def isLocked_def clear_lockedTarget)

text \<open>Pinned to Alice, the line \<^verbatim>\<open>unlock\<close> reaches the unlock handler, which unsets the target.\<close>

theorem processCommand_unlock_escape_witness:
  "lockedTarget (lockedOn ''Alice'') = Some ''Alice'' \<and>
   trim (''unlock'' @ [CHR 0x0A]) = ''unlock'' \<and>
   (sampleRegistry :: string \<Rightarrow> (unit, string, string) handler option) ''unlock'' = Some unlockStub \<and>
   processCommand (sampleRegistry :: string \<Rightarrow> (unit, string, string) handler option)
       (''unlock'' @ [CHR 0x0A]) (lockedOn ''Alice'') =
     unlockStub (''unlock'' @ [CHR 0x0A]) (clear (lockedOn ''Alice'')) \<and>
   lockedTarget (snd (processCommand
       (sampleRegistry :: string \<Rightarrow> (unit, string, string) handler option)
       (''unlock'' @ [CHR 0x0A]) (lockedOn ''Alice''))) = None"
proof -
  have a: "lockedTarget (lockedOn ''Alice'') = Some ''Alice''"
    by (simp add: lockedOn_def)
  have b: "trim (''unlock'' @ [CHR 0x0A]) = ''unlock''"
    by (simp add: trim_def isWhiteSpace_def)
  have c: "(sampleRegistry :: string \<Rightarrow> (unit, string, string) handler option) ''unlock''
             = Some unlockStub"
    by (simp add: sampleRegistry_def)
  from processCommand_unlock_escape
         [of "lockedOn ''Alice''" "''Alice''" "''unlock'' @ [CHR 0x0A]" sampleRegistry unlockStub,
          OF a b c] a b c
  show ?thesis
    by (simp add: unlockStub_def)
qed

text \<open>
  C8, as amended. \<open>processCommand\<close> begins with \<open>clear\<close>, which leaves the unread
  counter at 0 and changes nothing when it is 0 already. Everything else happens in the
  cleared state: the call ends there without a handler, or a handler of the registry is
  entered there. So the counter is 0 after the call, for every input, when no handler of the
  registry moves a counter that is 0.
\<close>

theorem processCommand_resets_unread:
  "unreadMessagesCount (clear s) = 0 \<and>
   (unreadMessagesCount s = 0 \<longrightarrow> clear s = s) \<and>
   processCommand getCommandHandler rawCommand s =
     processCommand getCommandHandler rawCommand (clear s) \<and>
   (processCommand getCommandHandler rawCommand s = (Inr None, clear s) \<or>
    processCommand getCommandHandler rawCommand s = (Inl InvalidCommand, clear s) \<or>
    (\<exists>v h line. getCommandHandler v = Some h \<and>
       processCommand getCommandHandler rawCommand s = h line (clear s))) \<and>
   ((\<forall>v h line s'. getCommandHandler v = Some h \<and> unreadMessagesCount s' = 0 \<longrightarrow>
        unreadMessagesCount (snd (h line s')) = 0) \<longrightarrow>
    unreadMessagesCount (snd (processCommand getCommandHandler rawCommand s)) = 0)"
proof -
  have first: "processCommand getCommandHandler rawCommand s =
     processCommand getCommandHandler rawCommand (clear s)"
    by (simp add: processCommand_def clear_idem)
  have paths: "processCommand getCommandHandler rawCommand s = (Inr None, clear s) \<or>
    processCommand getCommandHandler rawCommand s = (Inl InvalidCommand, clear s) \<or>
    (\<exists>v h line. getCommandHandler v = Some h \<and>
       processCommand getCommandHandler rawCommand s = h line (clear s))"
    by (auto simp: processCommand_def Let_def split: option.splits)
  have frame: "unreadMessagesCount (snd (processCommand getCommandHandler rawCommand s)) = 0"
    if "\<forall>v h line s'. getCommandHandler v = Some h \<and> unreadMessagesCount s' = 0 \<longrightarrow>
        unreadMessagesCount (snd (h line s')) = 0"
    using paths that clear_unread [of s] by auto
  show ?thesis
    using first paths frame by (simp add: clear_unread clear_def)
qed

text \<open>Three unread messages are gone after a command; a session without any is left as it is.\<close>

theorem processCommand_resets_unread_witness:
  "unreadMessagesCount (lockedOn ''Alice'') = 3 \<and>
   unreadMessagesCount (snd (processCommand
       (sampleRegistry :: string \<Rightarrow> (unit, string, string) handler option)
       ''hello there'' (lockedOn ''Alice''))) = 0 \<and>
   unreadMessagesCount (Messer sampleUser () None) = 0 \<and>
   clear (Messer sampleUser () None) = Messer sampleUser () None"
proof -
  have fr: "\<forall>v h line s'.
      (sampleRegistry :: string \<Rightarrow> (unit, string, string) handler option) v = Some h \<and>
        unreadMessagesCount s' = 0 \<longrightarrow> unreadMessagesCount (snd (h line s')) = 0"
    by (auto simp: sampleRegistry_def sendStub_def unlockStub_def split: if_splits)
  have z: "unreadMessagesCount (Messer sampleUser () None) = 0"
    by (simp add: Messer_def)
  have t: "unreadMessagesCount (lockedOn ''Alice'') = 3"
    by (simp add: lockedOn_def)
  from processCommand_resets_unread
         [of "lockedOn ''Alice''" "sampleRegistry :: string \<Rightarrow> (unit, string, string) handler option"
             "''hello there''"] fr
  have r: "unreadMessagesCount (snd (processCommand
       (sampleRegistry :: string \<Rightarrow> (unit, string, string) handler option)
       ''hello there'' (lockedOn ''Alice''))) = 0"
    by blast
  from processCommand_resets_unread
         [of "Messer sampleUser () None"
             "sampleRegistry :: string \<Rightarrow> (unit, string, string) handler option" "''hello there''"] z
  have n: "clear (Messer sampleUser () None) = Messer sampleUser () None"
    by blast
  from t r z n show ?thesis by blast
qed

text \<open>
  C8 as stated fails for a registry whose handler writes the counter: the reset comes
  first, the handler runs after it, and the counter is what the handler left.
\<close>

theorem processCommand_resets_unread_counterexample:
  "trim ''x'' \<noteq> [] \<and>
   unreadMessagesCount (snd (processCommand
       (bumpRegistry :: string \<Rightarrow> (unit, string, string) handler option)
       ''x'' (Messer sampleUser () None))) = 5"
  by (simp add: processCommand_def trim_def isWhiteSpace_def isLocked_def clear_def Messer_def
      bumpRegistry_def bumpHandler_def Let_def)

end
